theory Spec2Isabelle
  imports Complex_Main "HOL-Library.Multiset"
begin

section \<open>The plotting script \<^verbatim>\<open>scripts/plot.py\<close>\<close>

text \<open>
  The script reads every CSV file of a directory, pools the memory and swap samples of
  all files, draws one combined chart (scatter plus mean curve per timestamp) and then
  one chart per file for the active/inactive lists. The model below follows the script
  line by line. Numbers are exact rationals (\<^typ>\<open>rat\<close>); floating-point rounding is
  not modelled. An uncaught Python exception is a value of type \<open>error\<close>; the files the
  script has saved are a list of (path, figure) pairs in the order of the
  \<^verbatim>\<open>plt.savefig\<close> calls. The CSV files do not change during the run: both passes read
  the same content.
\<close>

subsection \<open>Data model\<close>

text \<open>
  A parsed CSV file (a polars \<^verbatim>\<open>DataFrame\<close>): its columns, by name. The file system is
  what \<^verbatim>\<open>pl.read_csv\<close> yields for a path: \<open>None\<close> when the file cannot be read or
  parsed. Every column is numeric; how polars types the columns of a file is not part of
  the script and is left to this parameter.
\<close>

type_synonym dataframe = "(string \<times> rat list) list"

type_synonym filesystem = "string \<Rightarrow> dataframe option"

type_synonym points = "(rat \<times> rat) list"

datatype error =
    ReadError string
  | ColumnNotFoundError string
  | ValueError
  | ZeroDivisionError


text \<open>
  What the script hands to matplotlib before saving a figure: for the combined chart
  the two scatter plots and the two mean curves (each as x-values and y-values), for a
  per-file chart its title and the four labelled lines.
\<close>

datatype figure =
    CombinedChart
      (mem_scatter: "rat list \<times> rat list")
      (mem_mean: "rat list \<times> rat list")
      (swap_scatter: "rat list \<times> rat list")
      (swap_mean: "rat list \<times> rat list")
  | ActiveInactiveChart
      (title: string)
      (lines: "(string \<times> rat list \<times> rat list) list")

type_synonym disk = "(string \<times> figure) list"

subsection \<open>Library operations the script calls\<close>

text \<open>\<^verbatim>\<open>pl.read_csv(csv_file)\<close>\<close>

definition read_csv :: "filesystem \<Rightarrow> string \<Rightarrow> error + dataframe" where
  "read_csv fs csv_file = (case fs csv_file of None \<Rightarrow> Inl (ReadError csv_file) | Some df \<Rightarrow> Inr df)"

text \<open>\<^verbatim>\<open>df[name]\<close>: raises when the frame has no such column.\<close>

definition get_column :: "dataframe \<Rightarrow> string \<Rightarrow> error + rat list" where
  "get_column df name = (case map_of df name of None \<Rightarrow> Inl (ColumnNotFoundError name) | Some vs \<Rightarrow> Inr vs)"

text \<open>\<^verbatim>\<open>series / (1024 * 1024)\<close>: element-wise true division.\<close>

definition to_mb :: "rat \<Rightarrow> rat" where
  "to_mb v = v / (1024 * 1024)"

definition series_to_mb :: "rat list \<Rightarrow> rat list" where
  "series_to_mb vs = map to_mb vs"

text \<open>
  \<^verbatim>\<open>a, b = zip(*pts)\<close> for a list of pairs: with no pair, \<^verbatim>\<open>zip()\<close> yields nothing and
  the unpacking raises \<^verbatim>\<open>ValueError\<close>; otherwise it yields the two coordinate tuples.
\<close>

definition unzip_points :: "points \<Rightarrow> error + (rat list \<times> rat list)" where
  "unzip_points pts = (if pts = [] then Inl ValueError else Inr (map fst pts, map snd pts))"

text \<open>
  \<^verbatim>\<open>os.path.join(a, b)\<close>, \<^verbatim>\<open>os.path.basename(p)\<close> and the root part of
  \<^verbatim>\<open>os.path.splitext(p)\<close> on POSIX paths. The extension starts at the last dot of the
  last path component, unless only dots precede it there.
\<close>

definition path_join :: "string \<Rightarrow> string \<Rightarrow> string" where
  "path_join a b =
     (if b \<noteq> [] \<and> hd b = CHR ''/'' then b
      else if a = [] then b
      else if last a = CHR ''/'' then a @ b
      else a @ ''/'' @ b)"

definition basename :: "string \<Rightarrow> string" where
  "basename p = rev (takeWhile (\<lambda>c. c \<noteq> CHR ''/'') (rev p))"

definition dirpart :: "string \<Rightarrow> string" where
  "dirpart p = rev (dropWhile (\<lambda>c. c \<noteq> CHR ''/'') (rev p))"

definition splitext_root :: "string \<Rightarrow> string" where
  "splitext_root p =
     (let b = basename p;
          stem = rev (tl (dropWhile (\<lambda>c. c \<noteq> CHR ''.'') (rev b)))
      in if CHR ''.'' \<in> set b \<and> filter (\<lambda>c. c \<noteq> CHR ''.'') stem \<noteq> []
         then dirpart p @ stem else p)"

text \<open>
  Whether the pattern \<^verbatim>\<open>*.csv\<close> of \<^verbatim>\<open>glob.glob\<close> matches the last component of a path:
  the name ends in \<^verbatim>\<open>.csv\<close> and does not start with a dot.
\<close>

definition matches_csv :: "string \<Rightarrow> bool" where
  "matches_csv p =
     (let b = basename p
      in 4 \<le> length b \<and> drop (length b - 4) b = ''.csv'' \<and> hd b \<noteq> CHR ''.'')"

subsection \<open>First pass: pooling the samples (lines 12 to 21)\<close>

definition file_points :: "filesystem \<Rightarrow> string \<Rightarrow> error + (points \<times> points)" where
  "file_points fs csv_file =
     (case read_csv fs csv_file of Inl e \<Rightarrow> Inl e | Inr df \<Rightarrow>
      (case get_column df ''timestamp'' of Inl e \<Rightarrow> Inl e | Inr timestamps \<Rightarrow>
       (case get_column df ''current_memory_usage'' of Inl e \<Rightarrow> Inl e | Inr m \<Rightarrow>
        (case get_column df ''current_swap_usage'' of Inl e \<Rightarrow> Inl e | Inr s \<Rightarrow>
           Inr (zip timestamps (series_to_mb m), zip timestamps (series_to_mb s))))))"

fun load_points :: "filesystem \<Rightarrow> string list \<Rightarrow> points \<Rightarrow> points \<Rightarrow> error + (points \<times> points)" where
  "load_points fs [] all_points all_swap_points = Inr (all_points, all_swap_points)"
| "load_points fs (csv_file # rest) all_points all_swap_points =
     (case file_points fs csv_file of
        Inl e \<Rightarrow> Inl e
      | Inr (pm, ps) \<Rightarrow> load_points fs rest (all_points @ pm) (all_swap_points @ ps))"

subsection \<open>Mean per timestamp (lines 31 to 35 and 47 to 51)\<close>

text \<open>
  \<^verbatim>\<open>collections.defaultdict(list)\<close> as an association list in insertion order.
  \<^verbatim>\<open>d[x].append(y)\<close> creates the entry for a new key; reading a key that is absent
  yields the empty list.
\<close>

type_synonym groups = "(rat \<times> rat list) list"

fun dict_append :: "groups \<Rightarrow> rat \<Rightarrow> rat \<Rightarrow> groups" where
  "dict_append [] x y = [(x, [y])]"
| "dict_append ((k, vs) # d) x y =
     (if k = x then (k, vs @ [y]) # d else (k, vs) # dict_append d x y)"

fun group_points :: "groups \<Rightarrow> points \<Rightarrow> groups" where
  "group_points d [] = d"
| "group_points d ((x, y) # pts) = group_points (dict_append d x y) pts"

definition dict_keys :: "groups \<Rightarrow> rat list" where
  "dict_keys d = map fst d"

definition dict_get :: "groups \<Rightarrow> rat \<Rightarrow> rat list" where
  "dict_get d t = (case map_of d t of None \<Rightarrow> [] | Some vs \<Rightarrow> vs)"

text \<open>\<^verbatim>\<open>sum(vs) / len(vs)\<close>\<close>

definition py_mean :: "rat list \<Rightarrow> error + rat" where
  "py_mean vs = (if length vs = 0 then Inl ZeroDivisionError else Inr (sum_list vs / of_nat (length vs)))"

text \<open>A list comprehension whose body may raise: the first error ends it.\<close>

fun comprehension :: "('a \<Rightarrow> error + 'b) \<Rightarrow> 'a list \<Rightarrow> error + 'b list" where
  "comprehension f [] = Inr []"
| "comprehension f (x # xs) =
     (case f x of Inl e \<Rightarrow> Inl e | Inr y \<Rightarrow>
      (case comprehension f xs of Inl e \<Rightarrow> Inl e | Inr ys \<Rightarrow> Inr (y # ys)))"

definition mean_x :: "points \<Rightarrow> rat list" where
  "mean_x pts = sort (dict_keys (group_points [] pts))"

definition mean_y :: "points \<Rightarrow> error + rat list" where
  "mean_y pts = comprehension (\<lambda>t. py_mean (dict_get (group_points [] pts) t)) (mean_x pts)"

definition mean_curve :: "points \<Rightarrow> error + (rat list \<times> rat list)" where
  "mean_curve pts = (case mean_y pts of Inl e \<Rightarrow> Inl e | Inr ys \<Rightarrow> Inr (mean_x pts, ys))"

subsection \<open>The combined chart (lines 23 to 64)\<close>

definition combined_chart :: "points \<Rightarrow> points \<Rightarrow> error + figure" where
  "combined_chart all_points all_swap_points =
     (case unzip_points all_points of Inl e \<Rightarrow> Inl e | Inr mem_xy \<Rightarrow>
      (case unzip_points all_swap_points of Inl e \<Rightarrow> Inl e | Inr swap_xy \<Rightarrow>
       (case mean_curve all_points of Inl e \<Rightarrow> Inl e | Inr mem_curve \<Rightarrow>
        (case mean_curve all_swap_points of Inl e \<Rightarrow> Inl e | Inr swap_curve \<Rightarrow>
           Inr (CombinedChart mem_xy mem_curve swap_xy swap_curve)))))"

subsection \<open>Second pass: one chart per file (lines 66 to 88)\<close>

definition file_chart :: "filesystem \<Rightarrow> string \<Rightarrow> error + figure" where
  "file_chart fs csv_file =
     (case read_csv fs csv_file of Inl e \<Rightarrow> Inl e | Inr df \<Rightarrow>
      (case get_column df ''timestamp'' of Inl e \<Rightarrow> Inl e | Inr timestamps \<Rightarrow>
       (case get_column df ''active_anon'' of Inl e \<Rightarrow> Inl e | Inr aa \<Rightarrow>
        (case get_column df ''inactive_anon'' of Inl e \<Rightarrow> Inl e | Inr ia \<Rightarrow>
         (case get_column df ''active_file'' of Inl e \<Rightarrow> Inl e | Inr af \<Rightarrow>
          (case get_column df ''inactive_file'' of Inl e \<Rightarrow> Inl e | Inr iaf \<Rightarrow>
             Inr (ActiveInactiveChart
                   (''Listes actives/inactives ('' @ basename csv_file @ '')'')
                   [(''active_anon (MB)'', timestamps, series_to_mb aa),
                    (''inactive_anon (MB)'', timestamps, series_to_mb ia),
                    (''active_file (MB)'', timestamps, series_to_mb af),
                    (''inactive_file (MB)'', timestamps, series_to_mb iaf)])))))))"

definition image_path :: "string \<Rightarrow> string" where
  "image_path csv_file = splitext_root csv_file @ ''_active_inactive.png''"

fun per_file_charts :: "filesystem \<Rightarrow> string list \<Rightarrow> disk \<Rightarrow> disk \<times> error option" where
  "per_file_charts fs [] saved = (saved, None)"
| "per_file_charts fs (csv_file # rest) saved =
     (case file_chart fs csv_file of
        Inl e \<Rightarrow> (saved, Some e)
      | Inr fig \<Rightarrow> per_file_charts fs rest (saved @ [(image_path csv_file, fig)]))"

subsection \<open>The whole run\<close>

text \<open>
  The run from line 12 on, for the directory and the list of files that
  \<^verbatim>\<open>glob.glob\<close> returned: the files saved, and the exception that ended the run if any.
\<close>

definition combined_pass :: "filesystem \<Rightarrow> string list \<Rightarrow> error + figure" where
  "combined_pass fs csv_files =
     (case load_points fs csv_files [] [] of
        Inl e \<Rightarrow> Inl e
      | Inr (all_points, all_swap_points) \<Rightarrow> combined_chart all_points all_swap_points)"

definition run :: "filesystem \<Rightarrow> string \<Rightarrow> string list \<Rightarrow> disk \<times> error option" where
  "run fs csv_dir csv_files =
     (case combined_pass fs csv_files of
        Inl e \<Rightarrow> ([], Some e)
      | Inr fig \<Rightarrow>
         per_file_charts fs csv_files [(path_join csv_dir ''mem_swap_vs_time.png'', fig)])"

text \<open>Lines 9 and 10: the directory argument and the enumeration of its CSV files.\<close>

definition script :: "filesystem \<Rightarrow> (string \<Rightarrow> string list) \<Rightarrow> string list \<Rightarrow> disk \<times> error option" where
  "script fs glob argv =
     (let csv_dir = (if length argv > 1 then argv ! 1 else ''.'')
      in run fs csv_dir (glob (path_join csv_dir ''*.csv'')))"

subsection \<open>Notions of the specification\<close>

text \<open>
  The aggregation as the specification words it: the samples are grouped by equal
  timestamp, each group yields its sum divided by its size, and the pairs are listed by
  ascending timestamp.
\<close>

definition group_of :: "points \<Rightarrow> rat \<Rightarrow> rat list" where
  "group_of samples t = map snd (filter (\<lambda>p. fst p = t) samples)"

definition meanByTimestamp :: "points \<Rightarrow> (rat \<times> rat) list" where
  "meanByTimestamp samples =
     map (\<lambda>t. (t, sum_list (group_of samples t) / of_nat (length (group_of samples t))))
       (sort (remdups (map fst samples)))"

text \<open>The samples one file contributes (none when it cannot be loaded), and the pools.\<close>

definition points_of :: "filesystem \<Rightarrow> string \<Rightarrow> points \<times> points" where
  "points_of fs csv_file = (case file_points fs csv_file of Inl e \<Rightarrow> ([], []) | Inr p \<Rightarrow> p)"

definition pooled_mem :: "filesystem \<Rightarrow> string list \<Rightarrow> points" where
  "pooled_mem fs csv_files = concat (map (\<lambda>f. fst (points_of fs f)) csv_files)"

definition pooled_swap :: "filesystem \<Rightarrow> string list \<Rightarrow> points" where
  "pooled_swap fs csv_files = concat (map (\<lambda>f. snd (points_of fs f)) csv_files)"

text \<open>The columns the two passes read.\<close>

definition combined_columns :: "string list" where
  "combined_columns = [''timestamp'', ''current_memory_usage'', ''current_swap_usage'']"

definition per_file_columns :: "string list" where
  "per_file_columns = [''active_anon'', ''inactive_anon'', ''active_file'', ''inactive_file'']"

definition required_columns :: "string list" where
  "required_columns = combined_columns @ per_file_columns"

subsection \<open>Example inputs\<close>

text \<open>
  The two-row file of the specification's scenario; the four arguments are the second
  row's values of the active/inactive columns, which the scenario leaves open.
\<close>

definition scenario_frame :: "rat \<Rightarrow> rat \<Rightarrow> rat \<Rightarrow> rat \<Rightarrow> dataframe" where
  "scenario_frame aa ia af iaf =
     [(''timestamp'', [0, 1]),
      (''current_memory_usage'', [1048576, 2097152]),
      (''current_swap_usage'', [0, 1048576]),
      (''active_anon'', [0, aa]),
      (''inactive_anon'', [0, ia]),
      (''active_file'', [0, af]),
      (''inactive_file'', [0, iaf])]"

text \<open>A frame with some columns removed, and a frame with a header but no data row.\<close>

definition without_columns :: "string list \<Rightarrow> dataframe \<Rightarrow> dataframe" where
  "without_columns names df = filter (\<lambda>c. fst c \<notin> set names) df"


section \<open>Auxiliary facts\<close>

lemma dict_append_keys:
  "map fst (dict_append d x y) = (if x \<in> fst ` set d then map fst d else map fst d @ [x])"
  by (induction d x y rule: dict_append.induct) auto

lemma dict_get_append:
  "dict_get (dict_append d x y) t = (if t = x then dict_get d x @ [y] else dict_get d t)"
  by (induction d x y rule: dict_append.induct) (auto simp: dict_get_def)

lemma dict_append_keys_set: "fst ` set (dict_append d x y) = insert x (fst ` set d)"
  by (induction d x y rule: dict_append.induct) auto

lemma group_points_keys_set:
  "fst ` set (group_points d pts) = fst ` set d \<union> fst ` set pts"
  by (induction d pts rule: group_points.induct) (simp_all add: dict_append_keys_set)

lemma dict_get_Nil: "dict_get [] t = []"
  by (simp add: dict_get_def)

lemma group_points_keys_distinct:
  "distinct (map fst d) \<Longrightarrow> distinct (map fst (group_points d pts))"
  by (induction d pts rule: group_points.induct) (auto simp: dict_append_keys)

lemma dict_get_group_points:
  "dict_get (group_points d pts) t = dict_get d t @ map snd (filter (\<lambda>p. fst p = t) pts)"
  by (induction d pts rule: group_points.induct) (auto simp: dict_get_append)

lemma comprehension_total:
  "(\<And>x. x \<in> set xs \<Longrightarrow> f x = Inr (g x)) \<Longrightarrow> comprehension f xs = Inr (map g xs)"
  by (induction xs) auto

lemma mean_x_eq: "mean_x pts = sort (remdups (map fst pts))"
proof -
  have "distinct (dict_keys (group_points [] pts))"
    unfolding dict_keys_def by (rule group_points_keys_distinct) simp
  moreover have "set (dict_keys (group_points [] pts)) = set (remdups (map fst pts))"
    unfolding dict_keys_def by (simp add: group_points_keys_set)
  ultimately show ?thesis
    unfolding mean_x_def
    by (intro sorted_distinct_set_unique) simp_all
qed

lemma group_of_nonempty: "t \<in> fst ` set pts \<Longrightarrow> group_of pts t \<noteq> []"
  by (induction pts) (auto simp: group_of_def)

lemma mean_y_eq:
  "mean_y pts = Inr (map snd (meanByTimestamp pts))"
proof -
  have "comprehension (\<lambda>t. py_mean (dict_get (group_points [] pts) t)) (mean_x pts)
      = Inr (map (\<lambda>t. sum_list (group_of pts t) / of_nat (length (group_of pts t))) (mean_x pts))"
  proof (rule comprehension_total)
    fix t assume "t \<in> set (mean_x pts)"
    then have "t \<in> fst ` set pts" by (simp add: mean_x_eq)
    then have "group_of pts t \<noteq> []" by (rule group_of_nonempty)
    moreover have "dict_get (group_points [] pts) t = group_of pts t"
      by (simp add: dict_get_group_points dict_get_Nil group_of_def)
    ultimately show "py_mean (dict_get (group_points [] pts) t)
        = Inr (sum_list (group_of pts t) / of_nat (length (group_of pts t)))"
      by (simp add: py_mean_def)
  qed
  then show ?thesis
    by (simp add: mean_y_def meanByTimestamp_def mean_x_eq comp_def)
qed

lemma mean_curve_eq:
  "mean_curve pts = Inr (map fst (meanByTimestamp pts), map snd (meanByTimestamp pts))"
  by (simp add: mean_curve_def mean_y_eq) (simp add: meanByTimestamp_def mean_x_eq comp_def)

lemma load_points_ok:
  "(\<And>f. f \<in> set files \<Longrightarrow> \<exists>p. file_points fs f = Inr p) \<Longrightarrow>
   load_points fs files ap asp =
     Inr (ap @ concat (map (\<lambda>f. fst (points_of fs f)) files),
          asp @ concat (map (\<lambda>f. snd (points_of fs f)) files))"
proof (induction files arbitrary: ap asp)
  case Nil
  show ?case by simp
next
  case (Cons f files)
  obtain pm ps where p: "file_points fs f = Inr (pm, ps)"
    using Cons.prems [of f] by auto
  have "load_points fs files (ap @ pm) (asp @ ps) =
     Inr ((ap @ pm) @ concat (map (\<lambda>f. fst (points_of fs f)) files),
          (asp @ ps) @ concat (map (\<lambda>f. snd (points_of fs f)) files))"
  proof (rule Cons.IH)
    fix g assume "g \<in> set files"
    then show "\<exists>p. file_points fs g = Inr p" using Cons.prems [of g] by simp
  qed
  then show ?case
    by (simp add: p points_of_def)
qed

lemma load_points_Inr_files:
  "load_points fs files ap asp = Inr r \<Longrightarrow> f \<in> set files \<Longrightarrow> \<exists>p. file_points fs f = Inr p"
  by (induction files arbitrary: ap asp) (auto split: sum.splits)

lemma load_points_pooled:
  assumes "load_points fs files [] [] = Inr (ap, asp)"
  shows "ap = pooled_mem fs files" and "asp = pooled_swap fs files"
proof -
  have "load_points fs files [] [] = Inr (pooled_mem fs files, pooled_swap fs files)"
    unfolding pooled_mem_def pooled_swap_def
    using load_points_ok [of files fs "[]" "[]"] load_points_Inr_files [OF assms] by simp
  with assms show "ap = pooled_mem fs files" and "asp = pooled_swap fs files" by simp_all
qed

lemma combined_chart_eq:
  "combined_chart ap asp =
     (if ap = [] \<or> asp = [] then Inl ValueError
      else Inr (CombinedChart (map fst ap, map snd ap)
                  (map fst (meanByTimestamp ap), map snd (meanByTimestamp ap))
                  (map fst asp, map snd asp)
                  (map fst (meanByTimestamp asp), map snd (meanByTimestamp asp))))"
  by (simp add: combined_chart_def unzip_points_def mean_curve_eq)

lemma per_file_charts_acc:
  "per_file_charts fs files saved =
     (saved @ fst (per_file_charts fs files []), snd (per_file_charts fs files []))"
proof (induction files arbitrary: saved)
  case Nil
  show ?case by simp
next
  case (Cons f files)
  show ?case
  proof (cases "file_chart fs f")
    case (Inl e)
    then show ?thesis by simp
  next
    case (Inr fig)
    have "per_file_charts fs files (saved @ [(image_path f, fig)]) =
        ((saved @ [(image_path f, fig)]) @ fst (per_file_charts fs files []), snd (per_file_charts fs files []))"
      by (rule Cons.IH)
    moreover have "per_file_charts fs files [(image_path f, fig)] =
        ([(image_path f, fig)] @ fst (per_file_charts fs files []), snd (per_file_charts fs files []))"
      by (rule Cons.IH)
    ultimately show ?thesis using Inr by simp
  qed
qed

lemma per_file_charts_None:
  "snd (per_file_charts fs files saved) = None \<Longrightarrow>
     (\<forall>f\<in>set files. \<exists>fig. file_chart fs f = Inr fig) \<and>
     map fst (fst (per_file_charts fs files saved)) = map fst saved @ map image_path files"
  by (induction files arbitrary: saved) (auto split: sum.splits)

lemma combined_pass_ok:
  assumes "\<And>f. f \<in> set files \<Longrightarrow> \<exists>p. file_points fs f = Inr p"
  shows "combined_pass fs files = combined_chart (pooled_mem fs files) (pooled_swap fs files)"
  using load_points_ok [of files fs "[]" "[]"] assms
  by (simp add: combined_pass_def pooled_mem_def pooled_swap_def)

lemma combined_pass_Inr:
  assumes "combined_pass fs files = Inr fig"
  shows "\<forall>f\<in>set files. \<exists>p. file_points fs f = Inr p"
    and "combined_chart (pooled_mem fs files) (pooled_swap fs files) = Inr fig"
proof -
  obtain ap asp where l: "load_points fs files [] [] = Inr (ap, asp)"
    using assms by (auto simp: combined_pass_def split: sum.splits)
  then show "\<forall>f\<in>set files. \<exists>p. file_points fs f = Inr p"
    using load_points_Inr_files by blast
  from l assms show "combined_chart (pooled_mem fs files) (pooled_swap fs files) = Inr fig"
    using load_points_pooled [OF l] by (simp add: combined_pass_def)
qed

lemma combined_chart_Inr:
  assumes "combined_chart ap asp = Inr fig"
  shows "ap \<noteq> []" and "asp \<noteq> []"
    and "fig = CombinedChart (map fst ap, map snd ap)
                  (map fst (meanByTimestamp ap), map snd (meanByTimestamp ap))
                  (map fst asp, map snd asp)
                  (map fst (meanByTimestamp asp), map snd (meanByTimestamp asp))"
  using assms by (auto simp: combined_chart_eq split: if_splits)

lemma meanByTimestamp_keys: "map fst (meanByTimestamp samples) = sort (remdups (map fst samples))"
  by (simp add: meanByTimestamp_def comp_def)

lemma mset_group_of: "mset p1 = mset p2 \<Longrightarrow> mset (group_of p1 t) = mset (group_of p2 t)"
  by (simp add: group_of_def)

lemma meanByTimestamp_mset:
  assumes "mset p1 = mset p2"
  shows "meanByTimestamp p1 = meanByTimestamp p2"
proof -
  have "set (map fst p1) = set (map fst p2)"
    using assms by (metis mset_eq_setD set_map)
  then have keys: "sort (remdups (map fst p1)) = sort (remdups (map fst p2))"
    by (intro sorted_distinct_set_unique) simp_all
  have "sum_list (group_of p1 t) = sum_list (group_of p2 t)" for t
    using mset_group_of [OF assms, of t] by (metis sum_mset_sum_list)
  moreover have "length (group_of p1 t) = length (group_of p2 t)" for t
    using mset_group_of [OF assms, of t] by (rule mset_eq_length)
  ultimately show ?thesis
    by (simp add: meanByTimestamp_def keys)
qed

lemma mset_concat_map:
  "mset (concat (map g xs)) = sum_mset (image_mset (\<lambda>x. mset (g x)) (mset xs))"
  by (induction xs) simp_all

lemma pooled_mset:
  assumes "mset files1 = mset files2"
  shows "mset (pooled_mem fs files1) = mset (pooled_mem fs files2)"
    and "mset (pooled_swap fs files1) = mset (pooled_swap fs files2)"
  by (simp_all add: pooled_mem_def pooled_swap_def mset_concat_map assms)

lemma scenario_file_points:
  "file_points [f \<mapsto> scenario_frame aa ia af iaf] f = Inr ([(0, 1), (1, 2)], [(0, 0), (1, 1)])"
  by (simp add: file_points_def read_csv_def get_column_def scenario_frame_def
      series_to_mb_def to_mb_def)

lemma mean_curve_scenario_mem: "mean_curve [(0, 1), (1, 2)] = Inr ([0, 1], [1, 2])"
  by (simp add: mean_curve_def mean_y_def mean_x_def dict_keys_def dict_get_def py_mean_def)

lemma mean_curve_scenario_swap: "mean_curve [(0, 0), (1, 1)] = Inr ([0, 1], [0, 1])"
  by (simp add: mean_curve_def mean_y_def mean_x_def dict_keys_def dict_get_def py_mean_def)

lemma scenario_combined_pass:
  "combined_pass [f \<mapsto> scenario_frame aa ia af iaf] [f] =
     Inr (CombinedChart ([0, 1], [1, 2]) ([0, 1], [1, 2]) ([0, 1], [0, 1]) ([0, 1], [0, 1]))"
  by (simp add: combined_pass_def scenario_file_points combined_chart_def unzip_points_def
      mean_curve_scenario_mem mean_curve_scenario_swap)

lemma scenario_file_chart:
  "file_chart [f \<mapsto> scenario_frame aa ia af iaf] f =
     Inr (ActiveInactiveChart (''Listes actives/inactives ('' @ basename f @ '')'')
           [(''active_anon (MB)'', [0, 1], [0, aa / 1048576]),
            (''inactive_anon (MB)'', [0, 1], [0, ia / 1048576]),
            (''active_file (MB)'', [0, 1], [0, af / 1048576]),
            (''inactive_file (MB)'', [0, 1], [0, iaf / 1048576])])"
  by (simp add: file_chart_def read_csv_def get_column_def scenario_frame_def
      series_to_mb_def to_mb_def)

lemma scenario_run:
  "run [f \<mapsto> scenario_frame aa ia af iaf] dir [f] =
     ([(path_join dir ''mem_swap_vs_time.png'',
        CombinedChart ([0, 1], [1, 2]) ([0, 1], [1, 2]) ([0, 1], [0, 1]) ([0, 1], [0, 1])),
       (image_path f,
        ActiveInactiveChart (''Listes actives/inactives ('' @ basename f @ '')'')
           [(''active_anon (MB)'', [0, 1], [0, aa / 1048576]),
            (''inactive_anon (MB)'', [0, 1], [0, ia / 1048576]),
            (''active_file (MB)'', [0, 1], [0, af / 1048576]),
            (''inactive_file (MB)'', [0, 1], [0, iaf / 1048576])])], None)"
  by (simp add: run_def scenario_combined_pass scenario_file_chart)

lemma file_points_Inr:
  assumes "file_points fs f = Inr (pm, ps)"
  shows "\<exists>df ts m s. fs f = Some df \<and> map_of df ''timestamp'' = Some ts
           \<and> map_of df ''current_memory_usage'' = Some m
           \<and> map_of df ''current_swap_usage'' = Some s
           \<and> pm = zip ts (map to_mb m) \<and> ps = zip ts (map to_mb s)"
  using assms
  by (auto simp: file_points_def read_csv_def get_column_def series_to_mb_def
      split: option.splits)

lemma points_of_Inr: "\<exists>p. file_points fs f = Inr p \<Longrightarrow> file_points fs f = Inr (points_of fs f)"
  by (auto simp: points_of_def)

lemma file_chart_Inr:
  assumes "file_chart fs f = Inr fig"
  shows "\<exists>df ts aa ia af iaf. fs f = Some df \<and> map_of df ''timestamp'' = Some ts
           \<and> map_of df ''active_anon'' = Some aa \<and> map_of df ''inactive_anon'' = Some ia
           \<and> map_of df ''active_file'' = Some af \<and> map_of df ''inactive_file'' = Some iaf
           \<and> lines fig = [(''active_anon (MB)'', ts, map to_mb aa),
                           (''inactive_anon (MB)'', ts, map to_mb ia),
                           (''active_file (MB)'', ts, map to_mb af),
                           (''inactive_file (MB)'', ts, map to_mb iaf)]"
  using assms
  by (auto simp: file_chart_def read_csv_def get_column_def series_to_mb_def
      split: option.splits)

lemma points_of_timestamps:
  assumes "t \<in> fst ` set (fst (points_of fs f)) \<or> t \<in> fst ` set (snd (points_of fs f))"
  shows "\<exists>df ts. fs f = Some df \<and> map_of df ''timestamp'' = Some ts \<and> t \<in> set ts"
proof (cases "file_points fs f")
  case (Inl e)
  with assms show ?thesis by (simp add: points_of_def)
next
  case (Inr p)
  obtain pm ps where p: "p = (pm, ps)" by (cases p)
  from file_points_Inr [of fs f pm ps] Inr p
  obtain df ts m s where d: "fs f = Some df" "map_of df ''timestamp'' = Some ts"
      "pm = zip ts (map to_mb m)" "ps = zip ts (map to_mb s)"
    by auto
  from assms Inr p have "t \<in> fst ` set pm \<or> t \<in> fst ` set ps"
    by (simp add: points_of_def)
  then have "t \<in> set ts"
    unfolding d by (auto dest: set_zip_leftD)
  with d show ?thesis by blast
qed

lemma pooled_timestamps:
  assumes "t \<in> fst ` set (pooled_mem fs files) \<or> t \<in> fst ` set (pooled_swap fs files)"
  shows "\<exists>f\<in>set files. \<exists>df ts. fs f = Some df \<and> map_of df ''timestamp'' = Some ts \<and> t \<in> set ts"
proof -
  from assms obtain f where f: "f \<in> set files"
    and "t \<in> fst ` set (fst (points_of fs f)) \<or> t \<in> fst ` set (snd (points_of fs f))"
    by (auto simp: pooled_mem_def pooled_swap_def)
  then show ?thesis using points_of_timestamps [of t fs f] by blast
qed

lemma dirpart_basename: "dirpart p @ basename p = p"
  unfolding dirpart_def basename_def
  by (metis rev_append rev_rev_ident takeWhile_dropWhile_id)

lemma image_path_csv:
  assumes "basename f = stem @ ''.csv''" and "stem \<noteq> []" and "hd stem \<noteq> CHR ''.''"
  shows "image_path f = dirpart f @ stem @ ''_active_inactive.png''"
proof -
  obtain h t where stem: "stem = h # t" using assms(2) by (cases stem) auto
  with assms(3) have "h \<noteq> CHR ''.''" by simp
  then have "filter (\<lambda>c. c \<noteq> CHR ''.'') stem \<noteq> []" by (simp add: stem)
  then show ?thesis
    by (simp add: image_path_def splitext_root_def assms(1))
qed

lemma matches_csv_stem:
  assumes "matches_csv p"
  shows "\<exists>stem. basename p = stem @ ''.csv'' \<and> stem \<noteq> [] \<and> hd stem \<noteq> CHR ''.''"
proof -
  let ?b = "basename p"
  let ?stem = "take (length ?b - 4) ?b"
  from assms have d: "drop (length ?b - 4) ?b = ''.csv''" and h: "hd ?b \<noteq> CHR ''.''"
    by (simp_all add: matches_csv_def Let_def)
  have b: "?b = ?stem @ ''.csv''"
    using append_take_drop_id [of "length ?b - 4" ?b] d by simp
  have "?stem \<noteq> []"
  proof
    assume "?stem = []"
    with b have "?b = ''.csv''" by simp
    with h show False by simp
  qed
  moreover from this b h have "hd ?stem \<noteq> CHR ''.''"
    by (metis hd_append2)
  ultimately show ?thesis using b by blast
qed

lemma image_path_matches:
  assumes "matches_csv p"
  shows "\<exists>r. p = r @ ''.csv'' \<and> image_path p = r @ ''_active_inactive.png''"
proof -
  from matches_csv_stem [OF assms] obtain stem where
    s: "basename p = stem @ ''.csv''" "stem \<noteq> []" "hd stem \<noteq> CHR ''.''"
    by blast
  have "p = (dirpart p @ stem) @ ''.csv''"
    using dirpart_basename [of p] s(1) by simp
  moreover have "image_path p = (dirpart p @ stem) @ ''_active_inactive.png''"
    using image_path_csv [OF s] by simp
  ultimately show ?thesis by blast
qed

lemma image_path_inj:
  assumes "matches_csv p" and "matches_csv q" and "image_path p = image_path q"
  shows "p = q"
proof -
  from image_path_matches [OF assms(1)] obtain r where
    r: "p = r @ ''.csv''" "image_path p = r @ ''_active_inactive.png''" by blast
  from image_path_matches [OF assms(2)] obtain r' where
    r': "q = r' @ ''.csv''" "image_path q = r' @ ''_active_inactive.png''" by blast
  from assms(3) r(2) r'(2) have "r = r'" by simp
  with r(1) r'(1) show ?thesis by simp
qed

lemma combined_path_not_image:
  assumes "matches_csv p"
  shows "path_join dir ''mem_swap_vs_time.png'' \<noteq> image_path p"
proof
  assume e: "path_join dir ''mem_swap_vs_time.png'' = image_path p"
  from image_path_matches [OF assms] obtain r where
    r: "image_path p = r @ ''_active_inactive.png''" by blast
  have "path_join dir ''mem_swap_vs_time.png'' = [] @ ''mem_swap_vs_time.png''
      \<or> path_join dir ''mem_swap_vs_time.png'' = dir @ ''mem_swap_vs_time.png''
      \<or> path_join dir ''mem_swap_vs_time.png'' = (dir @ ''/'') @ ''mem_swap_vs_time.png''"
    by (simp add: path_join_def)
  then obtain x where x: "path_join dir ''mem_swap_vs_time.png'' = x @ ''mem_swap_vs_time.png''"
    by blast
  from e r x have "rev (x @ ''mem_swap_vs_time.png'') = rev (r @ ''_active_inactive.png'')"
    by simp
  then show False by simp
qed

lemma saved_paths_distinct:
  assumes "distinct files" and "\<And>f. f \<in> set files \<Longrightarrow> matches_csv f"
  shows "distinct (path_join dir ''mem_swap_vs_time.png'' # map image_path files)"
proof -
  have "inj_on image_path (set files)"
    by (rule inj_onI) (simp add: image_path_inj assms(2))
  with assms(1) have "distinct (map image_path files)"
    by (simp add: distinct_map)
  moreover have "path_join dir ''mem_swap_vs_time.png'' \<notin> set (map image_path files)"
    using combined_path_not_image assms(2) by auto
  ultimately show ?thesis by simp
qed

lemma basename_no_slash: "CHR ''/'' \<notin> set (basename p)"
  by (auto simp: basename_def dest: set_takeWhileD)

lemma takeWhile_dropWhile_Nil: "takeWhile P (dropWhile P xs) = []"
  by (induction xs) auto

lemma basename_dirpart_append:
  assumes "CHR ''/'' \<notin> set n"
  shows "basename (dirpart p @ n) = n" and "dirpart (dirpart p @ n) = dirpart p"
proof -
  let ?P = "\<lambda>c. c \<noteq> CHR ''/''"
  have "takeWhile ?P (rev n @ dropWhile ?P (rev p)) = rev n @ takeWhile ?P (dropWhile ?P (rev p))"
    by (rule takeWhile_append2) (use assms in auto)
  then have "takeWhile ?P (rev n @ dropWhile ?P (rev p)) = rev n"
    by (simp add: takeWhile_dropWhile_Nil)
  then show "basename (dirpart p @ n) = n"
    by (simp add: basename_def dirpart_def)
  have "dropWhile ?P (rev n @ dropWhile ?P (rev p)) = dropWhile ?P (dropWhile ?P (rev p))"
    by (rule dropWhile_append2) (use assms in auto)
  then show "dirpart (dirpart p @ n) = dirpart p"
    by (simp add: basename_def dirpart_def)
qed

lemma image_path_alongside:
  assumes "matches_csv p"
  shows "\<exists>stem. basename p = stem @ ''.csv'' \<and> dirpart (image_path p) = dirpart p
           \<and> basename (image_path p) = stem @ ''_active_inactive.png''"
proof -
  from matches_csv_stem [OF assms] obtain stem where
    s: "basename p = stem @ ''.csv''" "stem \<noteq> []" "hd stem \<noteq> CHR ''.''"
    by blast
  have i: "image_path p = dirpart p @ (stem @ ''_active_inactive.png'')"
    using image_path_csv [OF s] by simp
  have "CHR ''/'' \<notin> set stem"
    using basename_no_slash [of p] s(1) by simp
  then have "CHR ''/'' \<notin> set (stem @ ''_active_inactive.png'')" by simp
  from basename_dirpart_append [OF this, of p] i s(1) show ?thesis by simp
qed

lemma per_file_charts_None_figs:
  "snd (per_file_charts fs files saved) = None \<Longrightarrow>
     map (\<lambda>c. Inr (snd c)) (fst (per_file_charts fs files saved))
       = map (\<lambda>c. Inr (snd c)) saved @ map (file_chart fs) files"
  by (induction files arbitrary: saved) (auto split: sum.splits)

lemma run_None:
  assumes "snd (run fs dir files) = None"
  shows "\<exists>fig. combined_pass fs files = Inr fig
           \<and> run fs dir files = per_file_charts fs files [(path_join dir ''mem_swap_vs_time.png'', fig)]"
  using assms by (auto simp: run_def split: sum.splits)
















section \<open>Properties\<close>

text \<open>
  C1: the mean curve the script computes (grouping in a dictionary keyed by the
  timestamp, then the sorted keys and one quotient per key) is the aggregation of the
  specification: samples grouped by equal timestamp, each group's sum divided by its
  size, pairs by ascending timestamp without repetition. In a run whose combined pass
  succeeds every file was loaded, and the memory curve and the swap curve of the chart
  are this aggregation of the pooled memory samples and of the pooled swap samples.
\<close>

theorem C1_mean_by_timestamp:
  "mean_curve samples = Inr (map fst (meanByTimestamp samples), map snd (meanByTimestamp samples))
   \<and> sorted (map fst (meanByTimestamp samples))
   \<and> distinct (map fst (meanByTimestamp samples))
   \<and> (combined_pass fs csv_files = Inr fig \<longrightarrow>
        (\<forall>f\<in>set csv_files. file_points fs f = Inr (points_of fs f))
        \<and> mem_mean fig = (map fst (meanByTimestamp (pooled_mem fs csv_files)),
                          map snd (meanByTimestamp (pooled_mem fs csv_files)))
        \<and> swap_mean fig = (map fst (meanByTimestamp (pooled_swap fs csv_files)),
                           map snd (meanByTimestamp (pooled_swap fs csv_files))))"
proof (intro conjI impI)
  show "mean_curve samples = Inr (map fst (meanByTimestamp samples), map snd (meanByTimestamp samples))"
    by (rule mean_curve_eq)
  show "sorted (map fst (meanByTimestamp samples))"
    by (simp add: meanByTimestamp_keys)
  show "distinct (map fst (meanByTimestamp samples))"
    by (simp add: meanByTimestamp_keys)
next
  assume ok: "combined_pass fs csv_files = Inr fig"
  show "\<forall>f\<in>set csv_files. file_points fs f = Inr (points_of fs f)"
    using combined_pass_Inr(1) [OF ok] by (auto simp: points_of_def)
  note fig = combined_chart_Inr(3) [OF combined_pass_Inr(2) [OF ok]]
  show "mem_mean fig = (map fst (meanByTimestamp (pooled_mem fs csv_files)),
                          map snd (meanByTimestamp (pooled_mem fs csv_files)))"
    by (subst fig) simp
  show "swap_mean fig = (map fst (meanByTimestamp (pooled_swap fs csv_files)),
                           map snd (meanByTimestamp (pooled_swap fs csv_files)))"
    by (subst fig) simp
qed

theorem C1_mean_by_timestamp_witness:
  "combined_pass [''./a.csv'' \<mapsto> scenario_frame 0 0 0 0] [''./a.csv''] =
     Inr (CombinedChart ([0, 1], [1, 2]) ([0, 1], [1, 2]) ([0, 1], [0, 1]) ([0, 1], [0, 1]))
   \<and> ([0, 1], [1, 2]) =
       (map fst (meanByTimestamp (pooled_mem [''./a.csv'' \<mapsto> scenario_frame 0 0 0 0] [''./a.csv''])),
        map snd (meanByTimestamp (pooled_mem [''./a.csv'' \<mapsto> scenario_frame 0 0 0 0] [''./a.csv''])))"
  using C1_mean_by_timestamp [of "[]" "[''./a.csv'' \<mapsto> scenario_frame 0 0 0 0]" "[''./a.csv'']"
      "CombinedChart ([0, 1], [1, 2]) ([0, 1], [1, 2]) ([0, 1], [0, 1]) ([0, 1], [0, 1])"]
    scenario_combined_pass [of "''./a.csv''" 0 0 0 0]
  by simp

text \<open>
  C2: for one file with the rows (0, 1048576, 0, 0, 0, 0, 0) and
  (1, 2097152, 1048576, ...), whatever the last four values of the second row, the
  combined chart has the mean memory series (0, 1), (1, 2) and the mean swap series
  (0, 0), (1, 1); it is the first file saved and the run completes.
\<close>

theorem C2_scenario:
  "combined_pass [f \<mapsto> scenario_frame aa ia af iaf] [f] =
     Inr (CombinedChart ([0, 1], [1, 2]) ([0, 1], [1, 2]) ([0, 1], [0, 1]) ([0, 1], [0, 1]))
   \<and> hd (fst (run [f \<mapsto> scenario_frame aa ia af iaf] dir [f])) =
       (path_join dir ''mem_swap_vs_time.png'',
        CombinedChart ([0, 1], [1, 2]) ([0, 1], [1, 2]) ([0, 1], [0, 1]) ([0, 1], [0, 1]))
   \<and> snd (run [f \<mapsto> scenario_frame aa ia af iaf] dir [f]) = None
   \<and> meanByTimestamp (pooled_mem [f \<mapsto> scenario_frame aa ia af iaf] [f]) = [(0, 1), (1, 2)]
   \<and> meanByTimestamp (pooled_swap [f \<mapsto> scenario_frame aa ia af iaf] [f]) = [(0, 0), (1, 1)]"
proof (intro conjI)
  show "meanByTimestamp (pooled_mem [f \<mapsto> scenario_frame aa ia af iaf] [f]) = [(0, 1), (1, 2)]"
    by (simp add: pooled_mem_def points_of_def scenario_file_points meanByTimestamp_def group_of_def)
  show "meanByTimestamp (pooled_swap [f \<mapsto> scenario_frame aa ia af iaf] [f]) = [(0, 0), (1, 1)]"
    by (simp add: pooled_swap_def points_of_def scenario_file_points meanByTimestamp_def group_of_def)
qed (simp_all add: scenario_combined_pass scenario_run)

text \<open>
  C3: the conversion divides by 1024 * 1024 = 1048576, so 1048576 bytes are exactly
  1 MB. The samples a file contributes are its timestamps paired with the converted
  memory and swap values; the pooled lists are the concatenation of these converted
  samples, file by file; and the four lines of a per-file chart are the converted
  columns.
\<close>

theorem C3_bytes_to_megabytes:
  "to_mb 1048576 = 1 \<and> to_mb v = v / 1048576
   \<and> (file_points fs f = Inr (pm, ps) \<longrightarrow>
        (\<exists>df ts m s. fs f = Some df \<and> map_of df ''timestamp'' = Some ts
           \<and> map_of df ''current_memory_usage'' = Some m
           \<and> map_of df ''current_swap_usage'' = Some s
           \<and> pm = zip ts (map to_mb m) \<and> ps = zip ts (map to_mb s)))
   \<and> (load_points fs csv_files [] [] = Inr (all_points, all_swap_points) \<longrightarrow>
        (\<forall>g\<in>set csv_files. file_points fs g = Inr (points_of fs g))
        \<and> all_points = concat (map (\<lambda>g. fst (points_of fs g)) csv_files)
        \<and> all_swap_points = concat (map (\<lambda>g. snd (points_of fs g)) csv_files))
   \<and> (file_chart fs f = Inr fig \<longrightarrow>
        (\<exists>df ts aa ia af iaf. fs f = Some df \<and> map_of df ''timestamp'' = Some ts
           \<and> map_of df ''active_anon'' = Some aa \<and> map_of df ''inactive_anon'' = Some ia
           \<and> map_of df ''active_file'' = Some af \<and> map_of df ''inactive_file'' = Some iaf
           \<and> lines fig = [(''active_anon (MB)'', ts, map to_mb aa),
                           (''inactive_anon (MB)'', ts, map to_mb ia),
                           (''active_file (MB)'', ts, map to_mb af),
                           (''inactive_file (MB)'', ts, map to_mb iaf)]))"
proof (intro conjI impI)
  show "to_mb 1048576 = 1" by (simp add: to_mb_def)
  show "to_mb v = v / 1048576" by (simp add: to_mb_def)
next
  assume "file_points fs f = Inr (pm, ps)"
  then show "\<exists>df ts m s. fs f = Some df \<and> map_of df ''timestamp'' = Some ts
           \<and> map_of df ''current_memory_usage'' = Some m
           \<and> map_of df ''current_swap_usage'' = Some s
           \<and> pm = zip ts (map to_mb m) \<and> ps = zip ts (map to_mb s)"
    by (rule file_points_Inr)
next
  assume l: "load_points fs csv_files [] [] = Inr (all_points, all_swap_points)"
  show "\<forall>g\<in>set csv_files. file_points fs g = Inr (points_of fs g)"
    using load_points_Inr_files [OF l] points_of_Inr by blast
  show "all_points = concat (map (\<lambda>g. fst (points_of fs g)) csv_files)"
    using load_points_pooled(1) [OF l] by (simp add: pooled_mem_def)
  show "all_swap_points = concat (map (\<lambda>g. snd (points_of fs g)) csv_files)"
    using load_points_pooled(2) [OF l] by (simp add: pooled_swap_def)
next
  assume "file_chart fs f = Inr fig"
  then show "\<exists>df ts aa ia af iaf. fs f = Some df \<and> map_of df ''timestamp'' = Some ts
           \<and> map_of df ''active_anon'' = Some aa \<and> map_of df ''inactive_anon'' = Some ia
           \<and> map_of df ''active_file'' = Some af \<and> map_of df ''inactive_file'' = Some iaf
           \<and> lines fig = [(''active_anon (MB)'', ts, map to_mb aa),
                           (''inactive_anon (MB)'', ts, map to_mb ia),
                           (''active_file (MB)'', ts, map to_mb af),
                           (''inactive_file (MB)'', ts, map to_mb iaf)]"
    by (rule file_chart_Inr)
qed

theorem C3_bytes_to_megabytes_witness:
  "file_points [''./a.csv'' \<mapsto> scenario_frame 0 0 0 0] ''./a.csv'' = Inr ([(0, 1), (1, 2)], [(0, 0), (1, 1)])
   \<and> load_points [''./a.csv'' \<mapsto> scenario_frame 0 0 0 0] [''./a.csv''] [] []
        = Inr ([(0, 1), (1, 2)], [(0, 0), (1, 1)])
   \<and> file_chart [''./a.csv'' \<mapsto> scenario_frame 0 0 0 0] ''./a.csv'' =
        Inr (ActiveInactiveChart ''Listes actives/inactives (a.csv)''
           [(''active_anon (MB)'', [0, 1], [0, 0]),
            (''inactive_anon (MB)'', [0, 1], [0, 0]),
            (''active_file (MB)'', [0, 1], [0, 0]),
            (''inactive_file (MB)'', [0, 1], [0, 0])])
   \<and> [(0, 1), (1, 2)] = concat (map (\<lambda>g. fst (points_of [''./a.csv'' \<mapsto> scenario_frame 0 0 0 0] g)) [''./a.csv''])
   \<and> to_mb 1048576 = 1"
proof -
  let ?fs = "[''./a.csv'' \<mapsto> scenario_frame 0 0 0 0]"
  let ?chart = "ActiveInactiveChart ''Listes actives/inactives (a.csv)''
           [(''active_anon (MB)'', [0, 1], [0, 0]),
            (''inactive_anon (MB)'', [0, 1], [0, 0]),
            (''active_file (MB)'', [0, 1], [0, 0]),
            (''inactive_file (MB)'', [0, 1], [0, 0])]"
  have h1: "file_points ?fs ''./a.csv'' = Inr ([(0, 1), (1, 2)], [(0, 0), (1, 1)])"
    by (rule scenario_file_points)
  have h2: "load_points ?fs [''./a.csv''] [] [] = Inr ([(0, 1), (1, 2)], [(0, 0), (1, 1)])"
    by (simp add: scenario_file_points)
  have h3: "file_chart ?fs ''./a.csv'' = Inr ?chart"
    by (simp add: scenario_file_chart basename_def)
  from h1 h2 h3
    C3_bytes_to_megabytes [of 0 ?fs "''./a.csv''" "[(0, 1), (1, 2)]" "[(0, 0), (1, 1)]"
      "[''./a.csv'']" "[(0, 1), (1, 2)]" "[(0, 0), (1, 1)]" ?chart]
  show ?thesis by blast
qed

text \<open>
  C4: with no CSV file the combined-chart step raises the unpacking error and nothing
  has been saved.
\<close>

theorem C4_no_csv_files_fails: "run fs csv_dir [] = ([], Some ValueError)"
  by (simp add: run_def combined_pass_def combined_chart_def unzip_points_def)

text \<open>
  C5: when the run completes, the saved files are the combined chart followed by
  exactly one chart per CSV file, in the order of the files, each being the chart of
  its file and saved under the file's path with the extension replaced by
  \<open>_active_inactive.png\<close>. For a file that the pattern \<open>*.csv\<close> matches, named
  \<open>stem.csv\<close>, that is \<open>stem_active_inactive.png\<close> in the file's own directory; and when
  all files are such and pairwise different, so are the paths of all saved files.
\<close>

theorem C5_one_image_per_file:
  assumes "run fs csv_dir csv_files = (saved, None)"
  shows "\<exists>fig charts. saved = (path_join csv_dir ''mem_swap_vs_time.png'', fig) # charts
           \<and> length charts = length csv_files
           \<and> map fst charts = map image_path csv_files
           \<and> map (\<lambda>c. Inr (snd c)) charts = map (file_chart fs) csv_files
           \<and> (\<forall>f\<in>set csv_files. matches_csv f \<longrightarrow>
                (\<exists>stem. basename f = stem @ ''.csv'' \<and> dirpart (image_path f) = dirpart f
                   \<and> basename (image_path f) = stem @ ''_active_inactive.png''))
           \<and> (distinct csv_files \<and> (\<forall>f\<in>set csv_files. matches_csv f)
                \<longrightarrow> distinct (map fst saved))"
proof -
  from assms have n: "snd (run fs csv_dir csv_files) = None" by simp
  from run_None [OF n] obtain fig where
    r: "run fs csv_dir csv_files = per_file_charts fs csv_files [(path_join csv_dir ''mem_swap_vs_time.png'', fig)]"
    by blast
  let ?first = "(path_join csv_dir ''mem_swap_vs_time.png'', fig)"
  let ?charts = "fst (per_file_charts fs csv_files [])"
  have s: "saved = ?first # ?charts" and n': "snd (per_file_charts fs csv_files []) = None"
    using assms r per_file_charts_acc [of fs csv_files "[?first]"] by simp_all
  have names: "map fst ?charts = map image_path csv_files"
    using per_file_charts_None [OF n'] by simp
  then have "length (map fst ?charts) = length (map image_path csv_files)" by simp
  then have len: "length ?charts = length csv_files" by simp
  have figs: "map (\<lambda>c. Inr (snd c)) ?charts = map (file_chart fs) csv_files"
    using per_file_charts_None_figs [OF n'] by simp
  have paths: "\<forall>f\<in>set csv_files. matches_csv f \<longrightarrow>
                (\<exists>stem. basename f = stem @ ''.csv'' \<and> dirpart (image_path f) = dirpart f
                   \<and> basename (image_path f) = stem @ ''_active_inactive.png'')"
    using image_path_alongside by blast
  have dist: "distinct (map fst saved)"
    if "distinct csv_files \<and> (\<forall>f\<in>set csv_files. matches_csv f)"
    using saved_paths_distinct [of csv_files csv_dir] that by (simp add: s names)
  from s len names figs paths dist show ?thesis by blast
qed

theorem C5_one_image_per_file_witness:
  "run [''./a.csv'' \<mapsto> scenario_frame 0 0 0 0] ''.'' [''./a.csv''] =
     ([(''./mem_swap_vs_time.png'',
        CombinedChart ([0, 1], [1, 2]) ([0, 1], [1, 2]) ([0, 1], [0, 1]) ([0, 1], [0, 1])),
       (''./a_active_inactive.png'',
        ActiveInactiveChart ''Listes actives/inactives (a.csv)''
           [(''active_anon (MB)'', [0, 1], [0, 0]),
            (''inactive_anon (MB)'', [0, 1], [0, 0]),
            (''active_file (MB)'', [0, 1], [0, 0]),
            (''inactive_file (MB)'', [0, 1], [0, 0])])], None)
   \<and> matches_csv ''./a.csv'' \<and> distinct [''./a.csv'']
   \<and> (\<exists>stem. basename ''./a.csv'' = stem @ ''.csv''
         \<and> dirpart (image_path ''./a.csv'') = dirpart ''./a.csv''
         \<and> basename (image_path ''./a.csv'') = stem @ ''_active_inactive.png'')"
proof -
  have r: "run [''./a.csv'' \<mapsto> scenario_frame 0 0 0 0] ''.'' [''./a.csv''] =
     ([(''./mem_swap_vs_time.png'',
        CombinedChart ([0, 1], [1, 2]) ([0, 1], [1, 2]) ([0, 1], [0, 1]) ([0, 1], [0, 1])),
       (''./a_active_inactive.png'',
        ActiveInactiveChart ''Listes actives/inactives (a.csv)''
           [(''active_anon (MB)'', [0, 1], [0, 0]),
            (''inactive_anon (MB)'', [0, 1], [0, 0]),
            (''active_file (MB)'', [0, 1], [0, 0]),
            (''inactive_file (MB)'', [0, 1], [0, 0])])], None)"
    by (simp add: scenario_run path_join_def image_path_def splitext_root_def basename_def dirpart_def)
  have m: "matches_csv ''./a.csv'' \<and> distinct [''./a.csv'']"
    by (simp add: matches_csv_def basename_def)
  from C5_one_image_per_file [OF r] m r show ?thesis by simp
qed

text \<open>
  C6: the x-values of a mean curve are exactly the timestamps of the samples, each
  once. In a run whose combined pass succeeds, the x-values of the memory and swap
  curves are the timestamps of the pooled samples, with one mean each, and a timestamp
  that occurs in the timestamp column of no input file is not among them.
\<close>

theorem C6_no_zero_fill:
  "set (mean_x samples) = fst ` set samples \<and> distinct (mean_x samples)
   \<and> (combined_pass fs csv_files = Inr fig \<longrightarrow>
        set (fst (mem_mean fig)) = fst ` set (pooled_mem fs csv_files)
        \<and> distinct (fst (mem_mean fig))
        \<and> length (snd (mem_mean fig)) = length (fst (mem_mean fig))
        \<and> set (fst (swap_mean fig)) = fst ` set (pooled_swap fs csv_files)
        \<and> distinct (fst (swap_mean fig))
        \<and> length (snd (swap_mean fig)) = length (fst (swap_mean fig))
        \<and> ((\<forall>f\<in>set csv_files. \<forall>df ts.
               fs f = Some df \<and> map_of df ''timestamp'' = Some ts \<longrightarrow> t \<notin> set ts)
             \<longrightarrow> t \<notin> set (fst (mem_mean fig)) \<and> t \<notin> set (fst (swap_mean fig))))"
proof (intro conjI impI)
  show "set (mean_x samples) = fst ` set samples" by (simp add: mean_x_eq)
  show "distinct (mean_x samples)" by (simp add: mean_x_eq)
next
  assume ok: "combined_pass fs csv_files = Inr fig"
  note fig = combined_chart_Inr(3) [OF combined_pass_Inr(2) [OF ok]]
  show m: "set (fst (mem_mean fig)) = fst ` set (pooled_mem fs csv_files)"
    by (subst fig) (simp add: meanByTimestamp_keys)
  show "distinct (fst (mem_mean fig))"
    by (subst fig) (simp add: meanByTimestamp_keys)
  show "length (snd (mem_mean fig)) = length (fst (mem_mean fig))"
    by (subst (1 2) fig) simp
  show s: "set (fst (swap_mean fig)) = fst ` set (pooled_swap fs csv_files)"
    by (subst fig) (simp add: meanByTimestamp_keys)
  show "distinct (fst (swap_mean fig))"
    by (subst fig) (simp add: meanByTimestamp_keys)
  show "length (snd (swap_mean fig)) = length (fst (swap_mean fig))"
    by (subst (1 2) fig) simp
  assume absent: "\<forall>f\<in>set csv_files. \<forall>df ts.
               fs f = Some df \<and> map_of df ''timestamp'' = Some ts \<longrightarrow> t \<notin> set ts"
  show "t \<notin> set (fst (mem_mean fig))"
    unfolding m using pooled_timestamps [of t fs csv_files] absent by blast
  show "t \<notin> set (fst (swap_mean fig))"
    unfolding s using pooled_timestamps [of t fs csv_files] absent by blast
qed

theorem C6_no_zero_fill_witness:
  "combined_pass [''./a.csv'' \<mapsto> scenario_frame 0 0 0 0] [''./a.csv''] =
     Inr (CombinedChart ([0, 1], [1, 2]) ([0, 1], [1, 2]) ([0, 1], [0, 1]) ([0, 1], [0, 1]))
   \<and> map_of (scenario_frame 0 0 0 0) ''timestamp'' = Some [0, 1] \<and> 2 \<notin> set [0, 1 :: rat]
   \<and> 2 \<notin> set (fst (mem_mean (CombinedChart ([0, 1], [1, 2]) ([0, 1], [1, 2]) ([0, 1], [0, 1]) ([0, 1], [0, 1]))))
   \<and> set (fst (mem_mean (CombinedChart ([0, 1], [1, 2]) ([0, 1], [1, 2]) ([0, 1], [0, 1]) ([0, 1], [0, 1]))))
       = fst ` set (pooled_mem [''./a.csv'' \<mapsto> scenario_frame 0 0 0 0] [''./a.csv''])"
proof -
  let ?fs = "[''./a.csv'' \<mapsto> scenario_frame 0 0 0 0]"
  let ?fig = "CombinedChart ([0, 1], [1, 2]) ([0, 1], [1, 2]) ([0, 1], [0, 1]) ([0, 1], [0, 1])"
  have h1: "combined_pass ?fs [''./a.csv''] = Inr ?fig"
    by (rule scenario_combined_pass)
  have h2: "\<forall>f\<in>set [''./a.csv'']. \<forall>df ts.
         ?fs f = Some df \<and> map_of df ''timestamp'' = Some ts \<longrightarrow> 2 \<notin> set ts"
    by (auto simp: scenario_frame_def)
  note t = C6_no_zero_fill [of "[]" ?fs "[''./a.csv'']" ?fig 2]
  from t h1 have c: "set (fst (mem_mean ?fig)) = fst ` set (pooled_mem ?fs [''./a.csv''])"
    by blast
  from t h1 h2 have d: "2 \<notin> set (fst (mem_mean ?fig))"
    by blast
  have e: "map_of (scenario_frame 0 0 0 0) ''timestamp'' = Some [0, 1] \<and> 2 \<notin> set [0, 1 :: rat]"
    by (simp add: scenario_frame_def)
  from h1 e c d show ?thesis by blast
qed

text \<open>
  C7: the run reads seven columns. If a file of the directory lacks one of them, the
  run ends with an error; and whenever the run completes, every file was readable and
  had all seven columns.
\<close>

theorem C7_missing_column_fails:
  "required_columns = [''timestamp'', ''current_memory_usage'', ''current_swap_usage'',
       ''active_anon'', ''inactive_anon'', ''active_file'', ''inactive_file'']
   \<and> (f \<in> set csv_files \<and> fs f = Some df \<and> c \<in> set required_columns \<and> map_of df c = None
        \<longrightarrow> (\<exists>e. snd (run fs csv_dir csv_files) = Some e))
   \<and> (snd (run fs csv_dir csv_files) = None
        \<longrightarrow> (\<forall>g\<in>set csv_files. \<exists>d. fs g = Some d
               \<and> (\<forall>n\<in>set required_columns. \<exists>vs. map_of d n = Some vs)))"
proof -
  have cols: "required_columns = [''timestamp'', ''current_memory_usage'', ''current_swap_usage'',
       ''active_anon'', ''inactive_anon'', ''active_file'', ''inactive_file'']"
    by (simp add: required_columns_def combined_columns_def per_file_columns_def)
  have parsed: "\<exists>d. fs g = Some d \<and> (\<forall>n\<in>set required_columns. \<exists>vs. map_of d n = Some vs)"
    if n: "snd (run fs csv_dir csv_files) = None" and g: "g \<in> set csv_files" for g
  proof -
    from run_None [OF n] obtain fig where ok: "combined_pass fs csv_files = Inr fig"
      and r: "run fs csv_dir csv_files
                = per_file_charts fs csv_files [(path_join csv_dir ''mem_swap_vs_time.png'', fig)]"
      by blast
    from combined_pass_Inr(1) [OF ok] g obtain pm ps where "file_points fs g = Inr (pm, ps)"
      by fastforce
    from file_points_Inr [OF this] obtain d ts m s where d: "fs g = Some d"
      "map_of d ''timestamp'' = Some ts" "map_of d ''current_memory_usage'' = Some m"
      "map_of d ''current_swap_usage'' = Some s"
      by blast
    from n r per_file_charts_None [of fs csv_files] g obtain chart where "file_chart fs g = Inr chart"
      by fastforce
    from file_chart_Inr [OF this] d(1) obtain aa ia af iaf where
      "map_of d ''active_anon'' = Some aa" "map_of d ''inactive_anon'' = Some ia"
      "map_of d ''active_file'' = Some af" "map_of d ''inactive_file'' = Some iaf"
      by auto
    with d have "\<forall>n\<in>set required_columns. \<exists>vs. map_of d n = Some vs"
      by (simp add: cols)
    with d(1) show ?thesis by blast
  qed
  have fails: "\<exists>e. snd (run fs csv_dir csv_files) = Some e"
    if "f \<in> set csv_files" "fs f = Some df" "c \<in> set required_columns" "map_of df c = None"
  proof (cases "snd (run fs csv_dir csv_files)")
    case None
    from parsed [OF None that(1)] that(2,3,4) show ?thesis by fastforce
  next
    case (Some e)
    then show ?thesis by blast
  qed
  from cols parsed fails show ?thesis by blast
qed

theorem C7_missing_column_fails_witness:
  "''./a.csv'' \<in> set [''./a.csv'']
   \<and> ''inactive_file'' \<in> set required_columns
   \<and> map_of (without_columns [''inactive_file''] (scenario_frame 0 0 0 0)) ''inactive_file'' = None
   \<and> snd (run [''./a.csv'' \<mapsto> without_columns [''inactive_file''] (scenario_frame 0 0 0 0)]
            ''.'' [''./a.csv'']) = Some (ColumnNotFoundError ''inactive_file'')
   \<and> snd (run [''./a.csv'' \<mapsto> scenario_frame 0 0 0 0] ''.'' [''./a.csv'']) = None
   \<and> (\<exists>d vs. [''./a.csv'' \<mapsto> scenario_frame 0 0 0 0] ''./a.csv'' = Some d
         \<and> map_of d ''inactive_file'' = Some vs)"
proof -
  let ?b = "without_columns [''inactive_file''] (scenario_frame 0 0 0 0)"
  have h1: "''./a.csv'' \<in> set [''./a.csv''] \<and> [''./a.csv'' \<mapsto> ?b] ''./a.csv'' = Some ?b
      \<and> ''inactive_file'' \<in> set required_columns \<and> map_of ?b ''inactive_file'' = None"
    by (simp add: without_columns_def scenario_frame_def required_columns_def
        combined_columns_def per_file_columns_def)
  have h2: "snd (run [''./a.csv'' \<mapsto> scenario_frame 0 0 0 0] ''.'' [''./a.csv'']) = None"
    by (simp add: scenario_run)
  have fp: "file_points [''./a.csv'' \<mapsto> ?b] ''./a.csv'' = Inr ([(0, 1), (1, 2)], [(0, 0), (1, 1)])"
    by (simp add: file_points_def read_csv_def get_column_def scenario_frame_def
        without_columns_def series_to_mb_def to_mb_def)
  have fc: "file_chart [''./a.csv'' \<mapsto> ?b] ''./a.csv'' = Inl (ColumnNotFoundError ''inactive_file'')"
    by (simp add: file_chart_def read_csv_def get_column_def scenario_frame_def
        without_columns_def)
  have h3: "snd (run [''./a.csv'' \<mapsto> ?b] ''.'' [''./a.csv''])
      = Some (ColumnNotFoundError ''inactive_file'')"
    by (simp add: run_def combined_pass_def fp fc combined_chart_def unzip_points_def
        mean_curve_scenario_mem mean_curve_scenario_swap)
  from h1 h2 h3
    C7_missing_column_fails [of "''./a.csv''" "[''./a.csv'']" "[''./a.csv'' \<mapsto> ?b]" ?b
      "''inactive_file''" "''.''"]
    C7_missing_column_fails [of "''./a.csv''" "[''./a.csv'']"
      "[''./a.csv'' \<mapsto> scenario_frame 0 0 0 0]" "scenario_frame 0 0 0 0"
      "''inactive_file''" "''.''"]
  show ?thesis by blast
qed






text \<open>
  C10: if two enumerations list the same files in different orders and the combined
  pass succeeds on the first, it succeeds on the second with the same mean memory curve
  and the same mean swap curve.
\<close>

theorem C10_order_independent:
  assumes "mset files1 = mset files2" and "combined_pass fs files1 = Inr fig1"
  shows "\<exists>fig2. combined_pass fs files2 = Inr fig2
           \<and> mem_mean fig2 = mem_mean fig1 \<and> swap_mean fig2 = swap_mean fig1"
proof -
  have same: "set files2 = set files1"
    using assms(1) by (metis mset_eq_setD)
  have loaded: "\<exists>p. file_points fs f = Inr p" if "f \<in> set files2" for f
    using combined_pass_Inr(1) [OF assms(2)] that same by blast
  note c1 = combined_pass_Inr(2) [OF assms(2)]
  note pm = meanByTimestamp_mset [OF pooled_mset(1) [OF assms(1), of fs]]
  note ps = meanByTimestamp_mset [OF pooled_mset(2) [OF assms(1), of fs]]
  have "pooled_mem fs files2 \<noteq> []"
    using combined_chart_Inr(1) [OF c1] pooled_mset(1) [OF assms(1), of fs]
    by (metis mset_zero_iff)
  moreover have "pooled_swap fs files2 \<noteq> []"
    using combined_chart_Inr(2) [OF c1] pooled_mset(2) [OF assms(1), of fs]
    by (metis mset_zero_iff)
  ultimately have "combined_pass fs files2 =
      Inr (CombinedChart (map fst (pooled_mem fs files2), map snd (pooled_mem fs files2))
                  (map fst (meanByTimestamp (pooled_mem fs files2)),
                   map snd (meanByTimestamp (pooled_mem fs files2)))
                  (map fst (pooled_swap fs files2), map snd (pooled_swap fs files2))
                  (map fst (meanByTimestamp (pooled_swap fs files2)),
                   map snd (meanByTimestamp (pooled_swap fs files2))))"
    using combined_pass_ok [of files2 fs] loaded by (simp add: combined_chart_eq)
  moreover have "mem_mean fig1 = (map fst (meanByTimestamp (pooled_mem fs files2)),
                   map snd (meanByTimestamp (pooled_mem fs files2)))"
    by (subst combined_chart_Inr(3) [OF c1]) (simp add: pm)
  moreover have "swap_mean fig1 = (map fst (meanByTimestamp (pooled_swap fs files2)),
                   map snd (meanByTimestamp (pooled_swap fs files2)))"
    by (subst combined_chart_Inr(3) [OF c1]) (simp add: ps)
  ultimately show ?thesis by simp
qed

theorem C10_order_independent_witness:
  "mset [''./a.csv'', ''./b.csv''] = mset [''./b.csv'', ''./a.csv'']
   \<and> combined_pass
        [''./a.csv'' \<mapsto> scenario_frame 0 0 0 0,
         ''./b.csv'' \<mapsto> [(''timestamp'', [1, 2]), (''current_memory_usage'', [3145728, 0]),
                          (''current_swap_usage'', [0, 2097152])]]
        [''./a.csv'', ''./b.csv''] =
       Inr (CombinedChart ([0, 1, 1, 2], [1, 2, 3, 0]) ([0, 1, 2], [1, 5 / 2, 0])
              ([0, 1, 1, 2], [0, 1, 0, 2]) ([0, 1, 2], [0, 1 / 2, 2]))
   \<and> (\<exists>fig2. combined_pass
        [''./a.csv'' \<mapsto> scenario_frame 0 0 0 0,
         ''./b.csv'' \<mapsto> [(''timestamp'', [1, 2]), (''current_memory_usage'', [3145728, 0]),
                          (''current_swap_usage'', [0, 2097152])]]
        [''./b.csv'', ''./a.csv''] = Inr fig2
        \<and> mem_mean fig2 = ([0, 1, 2], [1, 5 / 2, 0])
        \<and> swap_mean fig2 = ([0, 1, 2], [0, 1 / 2, 2]))"
proof -
  let ?b = "[(''timestamp'', [1, 2]), (''current_memory_usage'', [3145728, 0]),
             (''current_swap_usage'', [0, 2097152])]"
  let ?fs = "[''./a.csv'' \<mapsto> scenario_frame 0 0 0 0, ''./b.csv'' \<mapsto> ?b]"
  let ?fig = "CombinedChart ([0, 1, 1, 2], [1, 2, 3, 0]) ([0, 1, 2], [1, 5 / 2, 0])
              ([0, 1, 1, 2], [0, 1, 0, 2]) ([0, 1, 2], [0, 1 / 2, 2])"
  have fa: "file_points ?fs ''./a.csv'' = Inr ([(0, 1), (1, 2)], [(0, 0), (1, 1)])"
    by (simp add: file_points_def read_csv_def get_column_def scenario_frame_def
        series_to_mb_def to_mb_def)
  have fb: "file_points ?fs ''./b.csv'' = Inr ([(1, 3), (2, 0)], [(1, 0), (2, 2)])"
    by (simp add: file_points_def read_csv_def get_column_def series_to_mb_def to_mb_def)
  have mm: "mean_curve [(0, 1), (1, 2), (1, 3), (2, 0)] = Inr ([0, 1, 2], [1, 5 / 2, 0])"
    by (simp add: mean_curve_def mean_y_def mean_x_def dict_keys_def dict_get_def py_mean_def)
  have ms: "mean_curve [(0, 0), (1, 1), (1, 0), (2, 2)] = Inr ([0, 1, 2], [0, 1 / 2, 2])"
    by (simp add: mean_curve_def mean_y_def mean_x_def dict_keys_def dict_get_def py_mean_def)
  have h1: "mset [''./a.csv'', ''./b.csv''] = mset [''./b.csv'', ''./a.csv'']"
    by simp
  have h2: "combined_pass ?fs [''./a.csv'', ''./b.csv''] = Inr ?fig"
    by (simp add: combined_pass_def fa fb combined_chart_def unzip_points_def mm ms)
  from h1 h2 C10_order_independent [OF h1 h2]
  show ?thesis by simp
qed

end
